theory Spec2Isabelle
  imports Complex_Main
begin

section \<open>Values of the source language\<close>

text \<open>
  A JavaScript \<open>number\<close>. The renderer never computes with numbers: it copies coordinates
  and tests style values for truthiness (\<open>a || d\<close>). The falsy numbers are \<open>0\<close>, \<open>-0\<close>
  and \<open>NaN\<close>; \<open>0\<close> and \<open>-0\<close> are both \<open>Num 0\<close>. The infinities, truthy and copied
  like any other nonzero number, are not told apart from the reals.
\<close>

datatype number = Num real | NaN

fun truthy :: "number \<Rightarrow> bool" where
  "truthy (Num r) = (r \<noteq> 0)"
| "truthy NaN = False"

text \<open>\<open>a || d\<close> for an optional number \<open>a\<close>: \<open>undefined\<close> is \<open>None\<close>.\<close>

definition or_default :: "number option \<Rightarrow> number \<Rightarrow> number" where
  "or_default a d = (case a of None \<Rightarrow> d | Some n \<Rightarrow> if truthy n then n else d)"

text \<open>The decimal text a template literal gives for an array index.\<close>

fun string_of_index :: "nat \<Rightarrow> string" where
  "string_of_index n =
     (if n < 10 then [''0123456789'' ! n]
      else string_of_index (n div 10) @ [''0123456789'' ! (n mod 10)])"

declare string_of_index.simps [simp del]

text \<open>
  Reading a property of \<open>undefined\<close> throws a \<open>TypeError\<close>; it is the only exception the
  renderer can raise.
\<close>

datatype error = TypeError

definition andThen :: "error + 'a \<Rightarrow> ('a \<Rightarrow> error + 'b) \<Rightarrow> error + 'b" where
  "andThen m f = (case m of Inl e \<Rightarrow> Inl e | Inr v \<Rightarrow> f v)"

text \<open>An array literal evaluates its elements from left to right; the first throw wins.\<close>

fun array_of :: "(error + 'a) list \<Rightarrow> error + 'a list" where
  "array_of [] = Inr []"
| "array_of (m # ms) =
     (case m of
        Inl e \<Rightarrow> Inl e
      | Inr v \<Rightarrow> (case array_of ms of Inl e \<Rightarrow> Inl e | Inr vs \<Rightarrow> Inr (v # vs)))"

section \<open>Data model\<close>

text \<open>
  Modelled from the spec: the declaration of \<open>Vector\<close> (module \<open>./vector\<close>) is not among the
  sources. A point is a pair of numeric coordinates; the renderer reads its \<open>x\<close> and \<open>y\<close>.
\<close>

record Vector =
  vec_x :: number
  vec_y :: number

text \<open>
  \<open>p[i]\<close> is \<open>undefined\<close> when \<open>i\<close> is out of range, and the property read that follows
  (\<open>p[i].x\<close>, or \<open>p.x\<close> inside \<open>drawAxis\<close>) throws.
\<close>

definition point_at :: "Vector list \<Rightarrow> nat \<Rightarrow> error + Vector" where
  "point_at p i = (if i < length p then Inr (p ! i) else Inl TypeError)"

definition get_x :: "Vector list \<Rightarrow> nat \<Rightarrow> error + number" where
  "get_x p i = andThen (point_at p i) (\<lambda>v. Inr (vec_x v))"

definition get_y :: "Vector list \<Rightarrow> nat \<Rightarrow> error + number" where
  "get_y p i = andThen (point_at p i) (\<lambda>v. Inr (vec_y v))"

text \<open>
  Modelled from the spec: the declarations of \<open>DataSpecType\<close>, \<open>Polygon2dSpecs\<close>,
  \<open>Lines2dSpecs\<close>, \<open>Points2dSpecs\<close> and their union \<open>Data2dSpecs\<close> (module
  \<open>./primitive-types\<close>) are not among the sources. The fields are those of the object
  literals the renderer builds, under a prefix per record: \<open>pg_x\<close> is the \<open>x\<close> of a polygon,
  \<open>ln_id\<close> the \<open>id\<close> of a line bundle, \<open>pt_size\<close> the \<open>size\<close> of a point marker.
\<close>

datatype DataSpecType = polygon | lines | points

record Polygon2dSpecs =
  pg_x :: "number list"
  pg_y :: "number list"
  pg_borderColor :: string
  pg_borderOpacity :: number
  pg_borderSize :: number
  pg_fillColor :: string
  pg_fillOpacity :: number
  pg_type :: DataSpecType
  pg_id :: string

record Lines2dSpecs =
  ln_x0 :: "number list"
  ln_y0 :: "number list"
  ln_x1 :: "number list"
  ln_y1 :: "number list"
  ln_color :: string
  ln_opacity :: number
  ln_size :: number
  ln_type :: DataSpecType
  ln_id :: string

record Points2dSpecs =
  pt_x :: "number list"
  pt_y :: "number list"
  pt_color :: string
  pt_opacity :: number
  pt_size :: number
  pt_type :: DataSpecType
  pt_id :: string

datatype Data2dSpecs =
  Polygon Polygon2dSpecs
| Lines Lines2dSpecs
| Points Points2dSpecs

text \<open>The tag of a primitive is its \<open>id\<close>.\<close>

fun tag :: "Data2dSpecs \<Rightarrow> string" where
  "tag (Polygon s) = pg_id s"
| "tag (Lines s) = ln_id s"
| "tag (Points s) = pt_id s"

text \<open>
  Modelled from the spec: the class \<open>SceneCube\<close> (module \<open>./scene-cube\<close>) is not among the
  sources. The cube snapshot is the fields of it that the renderer reads: arrays of
  projected points and two origins.
\<close>

record SceneCube =
  vertexPoints2d :: "Vector list"
  crossPoints2d :: "Vector list"
  axes2d :: "Vector list"
  center2d :: Vector
  worldAxes2d :: "Vector list"
  worldOrigin2d :: Vector

text \<open>
  Modelled from the spec: the declarations of \<open>AxesOptions\<close> and \<open>SceneOptions\<close> (module
  \<open>./parameter-types\<close>) are not among the sources. Every feature config may be absent; so
  may the numeric style fields, for which the renderer supplies fallbacks. The two fields
  of the \<open>sceneEdges\<close> config are \<open>color\<close> and \<open>opacity\<close>.
\<close>

record AxesOptions =
  intersectionPointColor :: string
  intersectionPointSize :: "number option"
  xColor :: string
  yColor :: string
  zColor :: string
  lineSize :: "number option"
  edgeOpacity :: "number option"

record SceneEdgesOptions =
  se_color :: string
  se_opacity :: "number option"

text \<open>
  The types of the \<open>xyPlane\<close> and \<open>crossLines\<close> configs are declared outside the renderer,
  which never reads them: they are type parameters here.
\<close>

record ('xy, 'cl) SceneOptions =
  sceneEdges :: "SceneEdgesOptions option"
  xyPlane :: "'xy option"
  crossLines :: "'cl option"
  edgeAxes :: "AxesOptions option"
  worldAxes :: "AxesOptions option"
  cubeAxes :: "AxesOptions option"

record ('xy, 'cl) SceneCubeRenderer =
  cube :: SceneCube
  sceneOptions :: "('xy, 'cl) SceneOptions"

text \<open>
  The snapshot the geometry engine supplies: 8 vertex points, 6 cross-section points and
  3 direction vectors for each axis triple. Longer arrays are read the same way.
\<close>

definition well_formed :: "SceneCube \<Rightarrow> bool" where
  "well_formed c \<longleftrightarrow>
     8 \<le> length (vertexPoints2d c) \<and> 6 \<le> length (crossPoints2d c) \<and>
     3 \<le> length (axes2d c) \<and> 3 \<le> length (worldAxes2d c)"

section \<open>The renderer\<close>

definition POINT_FACE_SET :: "nat list list" where
  "POINT_FACE_SET = [
     [0, 1, 3, 2],
     [1, 5, 7, 3],
     [5, 4, 6, 7],
     [4, 0, 2, 6],
     [4, 5, 1, 0],
     [2, 3, 7, 6]
   ]"

definition drawAxis ::
  "Vector \<Rightarrow> Vector \<Rightarrow> string \<Rightarrow> number \<Rightarrow> number \<Rightarrow> string \<Rightarrow> Lines2dSpecs" where
  "drawAxis p v color opacity size' name =
     \<lparr> ln_x0 = [vec_x p],
       ln_y0 = [vec_y p],
       ln_x1 = [vec_x v],
       ln_y1 = [vec_y v],
       ln_color = color,
       ln_opacity = opacity,
       ln_size = size',
       ln_type = lines,
       ln_id = ''x-'' @ name \<rparr>"

definition drawAxes ::
  "Vector \<Rightarrow> Vector \<Rightarrow> Vector \<Rightarrow> Vector \<Rightarrow> string \<Rightarrow> AxesOptions \<Rightarrow> Data2dSpecs list" where
  "drawAxes p0 vx vy vz name opts =
     (let opacity = or_default (edgeOpacity opts) (Num 1);
          size' = or_default (lineSize opts) (Num 1);
          xAxis = drawAxis p0 vx (xColor opts) opacity size' name;
          yAxis = drawAxis p0 vy (yColor opts) opacity size' name;
          zAxis = drawAxis p0 vz (zColor opts) opacity size' name;
          centerPoint =
            \<lparr> pt_x = [vec_x p0],
              pt_y = [vec_y p0],
              pt_color = intersectionPointColor opts,
              pt_opacity = Num 1,
              pt_size = or_default (intersectionPointSize opts) (Num 3),
              pt_type = points,
              pt_id = ''point-'' @ name \<rparr>
      in [Lines xAxis, Lines yAxis, Lines zAxis, Points centerPoint])"

text \<open>
  The body of \<open>POINT_FACE_SET.forEach\<close> in \<open>drawBox\<close>, with the faces still to visit, the
  running index and the array \<open>data\<close> that each turn pushes to. A face with fewer than four
  indices destructures to \<open>undefined\<close> indices, and the vertex read then throws.
\<close>

fun drawBox_forEach ::
  "Vector list \<Rightarrow> string \<Rightarrow> number option \<Rightarrow> nat list list \<Rightarrow> nat \<Rightarrow> Polygon2dSpecs list
     \<Rightarrow> error + Polygon2dSpecs list" where
  "drawBox_forEach p color opacity [] index data = Inr data"
| "drawBox_forEach p color opacity (pointIndices # rest) index data =
     (case pointIndices of
        a # b # c # d # _ \<Rightarrow>
          andThen (array_of [get_x p a, get_x p b, get_x p c, get_x p d]) (\<lambda>xs.
          andThen (array_of [get_y p a, get_y p b, get_y p c, get_y p d]) (\<lambda>ys.
            drawBox_forEach p color opacity rest (Suc index)
              (data @
                [\<lparr> pg_x = xs,
                   pg_y = ys,
                   pg_borderColor = color,
                   pg_borderOpacity = or_default opacity (Num 1),
                   pg_borderSize = Num 1,
                   pg_fillColor = color,
                   pg_fillOpacity = Num 0,
                   pg_type = polygon,
                   pg_id = ''plane-'' @ string_of_index index \<rparr>])))
      | _ \<Rightarrow> Inl TypeError)"

definition drawBox :: "('xy, 'cl) SceneCubeRenderer \<Rightarrow> error + Polygon2dSpecs list" where
  "drawBox this =
     (case sceneEdges (sceneOptions this) of
        None \<Rightarrow> Inr []
      | Some edges \<Rightarrow>
          drawBox_forEach (vertexPoints2d (cube this)) (se_color edges) (se_opacity edges)
            POINT_FACE_SET 0 [])"

definition drawEdges :: "('xy, 'cl) SceneCubeRenderer \<Rightarrow> error + Data2dSpecs list" where
  "drawEdges this =
     (case edgeAxes (sceneOptions this) of
        None \<Rightarrow> Inr []
      | Some opts \<Rightarrow>
          (let p = vertexPoints2d (cube this) in
           andThen (point_at p 6) (\<lambda>p6. andThen (point_at p 7) (\<lambda>p7.
           andThen (point_at p 4) (\<lambda>p4. andThen (point_at p 2) (\<lambda>p2.
             Inr (drawAxes p6 p7 p4 p2 ''edge'' opts)))))))"

definition drawWorldAxes :: "('xy, 'cl) SceneCubeRenderer \<Rightarrow> error + Data2dSpecs list" where
  "drawWorldAxes this =
     (case worldAxes (sceneOptions this) of
        None \<Rightarrow> Inr []
      | Some opts \<Rightarrow>
          (let v = worldAxes2d (cube this);
               p0 = worldOrigin2d (cube this) in
           andThen (point_at v 0) (\<lambda>v0. andThen (point_at v 1) (\<lambda>v1. andThen (point_at v 2) (\<lambda>v2.
             Inr (drawAxes p0 v0 v1 v2 ''worldAxes'' opts))))))"

definition drawCubeAxes :: "('xy, 'cl) SceneCubeRenderer \<Rightarrow> error + Data2dSpecs list" where
  "drawCubeAxes this =
     (case cubeAxes (sceneOptions this) of
        None \<Rightarrow> Inr []
      | Some opts \<Rightarrow>
          (let v = axes2d (cube this);
               p0 = center2d (cube this) in
           andThen (point_at v 0) (\<lambda>v0. andThen (point_at v 1) (\<lambda>v1. andThen (point_at v 2) (\<lambda>v2.
             Inr (drawAxes p0 v0 v1 v2 ''axes'' opts))))))"

definition drawXYplane :: "('xy, 'cl) SceneCubeRenderer \<Rightarrow> error + Polygon2dSpecs list" where
  "drawXYplane this =
     (let p = vertexPoints2d (cube this) in
      andThen (array_of [get_x p 4, get_x p 5, get_x p 7, get_x p 6]) (\<lambda>xs.
      andThen (array_of [get_y p 4, get_y p 5, get_y p 7, get_y p 6]) (\<lambda>ys.
        Inr [\<lparr> pg_x = xs,
                pg_y = ys,
                pg_borderColor = ''#0e2845'',
                pg_borderOpacity = Num 1,
                pg_borderSize = Num 1,
                pg_fillColor = ''#0e2845'',
                pg_fillOpacity = Num (1 / 2),
                pg_type = polygon,
                pg_id = ''xy-plane'' \<rparr>])))"

definition drawCrossSectionLines ::
  "('xy, 'cl) SceneCubeRenderer \<Rightarrow> error + Lines2dSpecs list" where
  "drawCrossSectionLines this =
     (let p = crossPoints2d (cube this);
          t = vertexPoints2d (cube this) in
      andThen (array_of [get_x p 0, get_x p 1, get_x p 1, get_x p 3,
                         get_x t 6, get_x t 4, get_x t 5, get_x t 7]) (\<lambda>x0.
      andThen (array_of [get_y p 0, get_y p 1, get_y p 1, get_y p 3,
                         get_y t 6, get_y t 4, get_y t 5, get_y t 7]) (\<lambda>y0.
      andThen (array_of [get_x p 3, get_x p 2, get_x p 4, get_x p 5,
                         get_x t 4, get_x t 5, get_x t 7, get_x t 6]) (\<lambda>x1.
      andThen (array_of [get_y p 3, get_y p 2, get_y p 4, get_y p 5,
                         get_y t 4, get_y t 5, get_y t 7, get_y t 6]) (\<lambda>y1.
        Inr [\<lparr> ln_x0 = x0,
                ln_y0 = y0,
                ln_x1 = x1,
                ln_y1 = y1,
                ln_color = ''#079992'',
                ln_opacity = Num (1 / 2),
                ln_size = Num 1,
                ln_type = lines,
                ln_id = ''cross-section-lines'' \<rparr>])))))"

text \<open>
  \<open>render\<close> spreads the seven results into one array, in the order of the calls; a throw
  in one call leaves the later ones unevaluated. Its local \<open>data\<close> and the six option
  fields it destructures are never used.
\<close>

definition render :: "('xy, 'cl) SceneCubeRenderer \<Rightarrow> error + Data2dSpecs list" where
  "render this =
     andThen (drawBox this) (\<lambda>box.
     andThen (drawXYplane this) (\<lambda>xy1.
     andThen (drawEdges this) (\<lambda>edges.
     andThen (drawXYplane this) (\<lambda>xy2.
     andThen (drawCrossSectionLines this) (\<lambda>crossSection.
     andThen (drawWorldAxes this) (\<lambda>world.
     andThen (drawCubeAxes this) (\<lambda>axes.
       Inr (map Polygon box @ map Polygon xy1 @ edges @ map Polygon xy2 @
            map Lines crossSection @ world @ axes))))))))"

section \<open>The renderer as an object with state\<close>

text \<open>
  The store a method call runs in: the instance (the fields of \<open>this\<close>, with the cube and
  the options they refer to) and, by address, the arrays that the methods bind with
  \<open>let\<close> and can push to. A method takes the store and hands back what it returns or
  throws, with the store it leaves behind.
\<close>

record ('xy, 'cl) store =
  renderer :: "('xy, 'cl) SceneCubeRenderer"
  arrays :: "Polygon2dSpecs list list"

type_synonym ('xy, 'cl, 'a) call = "('xy, 'cl) store \<Rightarrow> (error + 'a) \<times> ('xy, 'cl) store"

text \<open>\<open>let data = []\<close>: a fresh empty array, at the next free address.\<close>

definition new_array :: "('xy, 'cl) store \<Rightarrow> nat \<times> ('xy, 'cl) store" where
  "new_array s = (length (arrays s), s\<lparr>arrays := arrays s @ [[]]\<rparr>)"

text \<open>\<open>data.push(plane)\<close>: the array at the address grows by one element, in place.\<close>

definition push :: "nat \<Rightarrow> Polygon2dSpecs \<Rightarrow> ('xy, 'cl) store \<Rightarrow> ('xy, 'cl) store" where
  "push a v s = s\<lparr>arrays := (arrays s)[a := arrays s ! a @ [v]]\<rparr>"

text \<open>
  A method whose body only reads the instance: \<open>drawEdges\<close>, \<open>drawWorldAxes\<close>,
  \<open>drawCubeAxes\<close>, \<open>drawXYplane\<close> and \<open>drawCrossSectionLines\<close> contain no assignment and no
  \<open>push\<close>, and build their result from array literals.
\<close>

definition reads ::
  "(('xy, 'cl) SceneCubeRenderer \<Rightarrow> error + 'a) \<Rightarrow> ('xy, 'cl, 'a) call" where
  "reads f s = (f (renderer s), s)"

text \<open>One call after another; a throw in the first leaves the second unevaluated.\<close>

definition seq ::
  "('xy, 'cl, 'a) call \<Rightarrow> ('a \<Rightarrow> ('xy, 'cl, 'b) call) \<Rightarrow> ('xy, 'cl, 'b) call" where
  "seq m f s = (case m s of (Inl e, s') \<Rightarrow> (Inl e, s') | (Inr v, s') \<Rightarrow> f v s')"

text \<open>
  The \<open>forEach\<close> of \<open>drawBox\<close> again, now pushing each polygon to the array \<open>data\<close> in the
  store. \<open>p\<close>, \<open>color\<close> and \<open>opacity\<close> were read from the instance before the loop.
\<close>

fun drawBox_forEach_st ::
  "Vector list \<Rightarrow> string \<Rightarrow> number option \<Rightarrow> nat \<Rightarrow> nat list list \<Rightarrow> nat
     \<Rightarrow> ('xy, 'cl, unit) call" where
  "drawBox_forEach_st p color opacity data [] index s = (Inr (), s)"
| "drawBox_forEach_st p color opacity data (pointIndices # rest) index s =
     (case pointIndices of
        a # b # c # d # _ \<Rightarrow>
          (case array_of [get_x p a, get_x p b, get_x p c, get_x p d] of
             Inl e \<Rightarrow> (Inl e, s)
           | Inr xs \<Rightarrow>
               (case array_of [get_y p a, get_y p b, get_y p c, get_y p d] of
                  Inl e \<Rightarrow> (Inl e, s)
                | Inr ys \<Rightarrow>
                    drawBox_forEach_st p color opacity data rest (Suc index)
                      (push data
                        \<lparr> pg_x = xs,
                          pg_y = ys,
                          pg_borderColor = color,
                          pg_borderOpacity = or_default opacity (Num 1),
                          pg_borderSize = Num 1,
                          pg_fillColor = color,
                          pg_fillOpacity = Num 0,
                          pg_type = polygon,
                          pg_id = ''plane-'' @ string_of_index index \<rparr> s)))
      | _ \<Rightarrow> (Inl TypeError, s))"

text \<open>\<open>drawBox\<close>: the guard, \<open>let data = []\<close>, the loop, and \<open>return data\<close>.\<close>

definition drawBox_st :: "('xy, 'cl, Polygon2dSpecs list) call" where
  "drawBox_st s =
     (case sceneEdges (sceneOptions (renderer s)) of
        None \<Rightarrow> (Inr [], s)
      | Some edges \<Rightarrow>
          (let p = vertexPoints2d (cube (renderer s));
               (data, s1) = new_array s
           in case drawBox_forEach_st p (se_color edges) (se_opacity edges) data
                     POINT_FACE_SET 0 s1 of
                (Inl e, s2) \<Rightarrow> (Inl e, s2)
              | (Inr u, s2) \<Rightarrow> (Inr (arrays s2 ! data), s2)))"

text \<open>\<open>render\<close>: its own \<open>let data = []\<close>, then the seven calls and the spread.\<close>

definition render_st :: "('xy, 'cl, Data2dSpecs list) call" where
  "render_st s =
     (let (data, s1) = new_array s
      in seq drawBox_st (\<lambda>box.
         seq (reads drawXYplane) (\<lambda>xy1.
         seq (reads drawEdges) (\<lambda>edges.
         seq (reads drawXYplane) (\<lambda>xy2.
         seq (reads drawCrossSectionLines) (\<lambda>crossSection.
         seq (reads drawWorldAxes) (\<lambda>world.
         seq (reads drawCubeAxes) (\<lambda>axes s'.
           (Inr (map Polygon box @ map Polygon xy1 @ edges @ map Polygon xy2 @
                 map Lines crossSection @ world @ axes), s')))))))) s1)"

text \<open>Two successive calls on the same instance, and what each returned.\<close>

definition render_twice ::
  "('xy, 'cl) store \<Rightarrow> (error + Data2dSpecs list) \<times> (error + Data2dSpecs list)" where
  "render_twice s =
     (let (first, s1) = render_st s;
          (second, s2) = render_st s1
      in (first, second))"

section \<open>Sample inputs\<close>

definition vec :: "real \<Rightarrow> real \<Rightarrow> Vector" where
  "vec a b = \<lparr> vec_x = Num a, vec_y = Num b \<rparr>"

definition sample_cube :: SceneCube where
  "sample_cube =
     \<lparr> vertexPoints2d =
         [vec 0 4, vec 4 4, vec 0 0, vec 4 0, vec 1 5, vec 5 5, vec 1 1, vec 5 1],
       crossPoints2d = [vec 3 5, vec 1 3, vec 5 3, vec 3 1, vec 0 2, vec 2 0],
       axes2d = [vec 5 3, vec 3 5, vec 2 2],
       center2d = vec 3 3,
       worldAxes2d = [vec 1 0, vec 0 1, vec (-1) (-1)],
       worldOrigin2d = vec 0 0 \<rparr>"

definition sample_axes :: AxesOptions where
  "sample_axes =
     \<lparr> intersectionPointColor = ''white'',
       intersectionPointSize = None,
       xColor = ''red'',
       yColor = ''green'',
       zColor = ''blue'',
       lineSize = Some (Num 2),
       edgeOpacity = Some (Num (1 / 2)) \<rparr>"

definition zero_axes :: AxesOptions where
  "zero_axes =
     \<lparr> intersectionPointColor = ''white'',
       intersectionPointSize = Some (Num 0),
       xColor = ''red'',
       yColor = ''green'',
       zColor = ''blue'',
       lineSize = Some (Num 0),
       edgeOpacity = Some (Num 0) \<rparr>"

definition sample_edges :: SceneEdgesOptions where
  "sample_edges = \<lparr> se_color = ''#fff'', se_opacity = Some (Num (8 / 10)) \<rparr>"

definition zero_edges :: SceneEdgesOptions where
  "zero_edges = \<lparr> se_color = ''#fff'', se_opacity = Some (Num 0) \<rparr>"

definition no_options :: "(bool, bool) SceneOptions" where
  "no_options =
     \<lparr> sceneEdges = None, xyPlane = None, crossLines = None,
       edgeAxes = None, worldAxes = None, cubeAxes = None \<rparr>"

definition all_options :: "(bool, bool) SceneOptions" where
  "all_options =
     \<lparr> sceneEdges = Some sample_edges, xyPlane = Some True, crossLines = Some True,
       edgeAxes = Some sample_axes, worldAxes = Some sample_axes, cubeAxes = Some sample_axes \<rparr>"

section \<open>Basic facts about reads and sequencing\<close>

lemma andThen_Inr [simp]: "andThen (Inr v) f = f v"
  by (simp add: andThen_def)

lemma andThen_Inl [simp]: "andThen (Inl e) f = Inl e"
  by (simp add: andThen_def)

lemma point_at_in_range: "i < length p \<Longrightarrow> point_at p i = Inr (p ! i)"
  by (simp add: point_at_def)

lemma get_x_in_range: "i < length p \<Longrightarrow> get_x p i = Inr (vec_x (p ! i))"
  by (simp add: get_x_def point_at_def)

lemma get_y_in_range: "i < length p \<Longrightarrow> get_y p i = Inr (vec_y (p ! i))"
  by (simp add: get_y_def point_at_def)

lemma string_of_index_digit: "n < 10 \<Longrightarrow> string_of_index n = [''0123456789'' ! n]"
  by (simp add: string_of_index.simps)

lemma vertex_cases: "v \<le> 7 \<Longrightarrow> v \<in> {0, 1, 2, 3, 4, 5, 6, 7::nat}"
  by auto

section \<open>The face table\<close>

text \<open>
  Claim C6. The face table has exactly 6 entries; every entry holds 4 pairwise distinct
  vertex indices, each in the range 0 to 7; and each of the indices 0 to 7 occurs in
  exactly 3 of the 6 entries.
\<close>

theorem face_table_invariant:
  "length POINT_FACE_SET = 6 \<and>
   (\<forall>face \<in> set POINT_FACE_SET.
      length face = 4 \<and> distinct face \<and> (\<forall>i \<in> set face. i \<le> 7)) \<and>
   (\<forall>v \<in> {0..7}. length (filter (\<lambda>face. v \<in> set face) POINT_FACE_SET) = 3)"
proof -
  have entries: "length POINT_FACE_SET = 6"
    by (simp add: POINT_FACE_SET_def)
  have faces: "\<forall>face \<in> set POINT_FACE_SET.
      length face = 4 \<and> distinct face \<and> (\<forall>i \<in> set face. i \<le> 7)"
    by (simp add: POINT_FACE_SET_def)
  have occurrences: "length (filter (\<lambda>face. v \<in> set face) POINT_FACE_SET) = 3"
    if "v \<in> {0..7}" for v :: nat
  proof -
    from that have "v \<le> 7"
      by simp
    then have "v \<in> {0, 1, 2, 3, 4, 5, 6, 7}"
      by (rule vertex_cases)
    then show ?thesis
      by (auto simp: POINT_FACE_SET_def)
  qed
  from entries faces occurrences show ?thesis
    by blast
qed

theorem face_table_invariant_witness:
  "[1, 5, 7, 3] \<in> set POINT_FACE_SET \<and> length [1, 5, 7, 3 :: nat] = 4 \<and>
   distinct [1, 5, 7, 3 :: nat] \<and> (5::nat) \<in> set [1, 5, 7, 3] \<and> (5::nat) \<le> 7 \<and>
   (5::nat) \<in> {0..7} \<and>
   length (filter (\<lambda>face. 5 \<in> set face) POINT_FACE_SET) = 3"
  using face_table_invariant by (simp add: POINT_FACE_SET_def)

section \<open>The shared axis-drawing routine\<close>

text \<open>
  Claim C3. For every origin, three direction points, name and axes options, the shared
  axis-drawing routine returns exactly 4 primitives: three line bundles of one segment
  each, from the origin to the respective direction point, in the colour of their axis
  and all tagged \<open>x-<name>\<close>, then one point marker at the origin tagged
  \<open>point-<name>\<close> with opacity 1. The lines' opacity is the configured \<open>edgeOpacity\<close>
  and 1 when it is omitted, their size is the configured \<open>lineSize\<close> and 1 when it is
  omitted, and the marker's size is the configured \<open>intersectionPointSize\<close> and 3 when
  it is omitted.
\<close>

theorem drawAxes_four_primitives:
  "\<exists>opacity width marker.
     drawAxes p0 vx vy vz name opts =
       [Lines \<lparr> ln_x0 = [vec_x p0], ln_y0 = [vec_y p0], ln_x1 = [vec_x vx], ln_y1 = [vec_y vx],
                ln_color = xColor opts, ln_opacity = opacity, ln_size = width,
                ln_type = lines, ln_id = ''x-'' @ name \<rparr>,
        Lines \<lparr> ln_x0 = [vec_x p0], ln_y0 = [vec_y p0], ln_x1 = [vec_x vy], ln_y1 = [vec_y vy],
                ln_color = yColor opts, ln_opacity = opacity, ln_size = width,
                ln_type = lines, ln_id = ''x-'' @ name \<rparr>,
        Lines \<lparr> ln_x0 = [vec_x p0], ln_y0 = [vec_y p0], ln_x1 = [vec_x vz], ln_y1 = [vec_y vz],
                ln_color = zColor opts, ln_opacity = opacity, ln_size = width,
                ln_type = lines, ln_id = ''x-'' @ name \<rparr>,
        Points \<lparr> pt_x = [vec_x p0], pt_y = [vec_y p0],
                 pt_color = intersectionPointColor opts, pt_opacity = Num 1, pt_size = marker,
                 pt_type = points, pt_id = ''point-'' @ name \<rparr>] \<and>
     (edgeOpacity opts = None \<longrightarrow> opacity = Num 1) \<and>
     (\<forall>n. edgeOpacity opts = Some n \<and> truthy n \<longrightarrow> opacity = n) \<and>
     (lineSize opts = None \<longrightarrow> width = Num 1) \<and>
     (\<forall>n. lineSize opts = Some n \<and> truthy n \<longrightarrow> width = n) \<and>
     (intersectionPointSize opts = None \<longrightarrow> marker = Num 3) \<and>
     (\<forall>n. intersectionPointSize opts = Some n \<and> truthy n \<longrightarrow> marker = n)"
proof (intro exI conjI)
  show "drawAxes p0 vx vy vz name opts =
       [Lines \<lparr> ln_x0 = [vec_x p0], ln_y0 = [vec_y p0], ln_x1 = [vec_x vx], ln_y1 = [vec_y vx],
                ln_color = xColor opts, ln_opacity = or_default (edgeOpacity opts) (Num 1),
                ln_size = or_default (lineSize opts) (Num 1),
                ln_type = lines, ln_id = ''x-'' @ name \<rparr>,
        Lines \<lparr> ln_x0 = [vec_x p0], ln_y0 = [vec_y p0], ln_x1 = [vec_x vy], ln_y1 = [vec_y vy],
                ln_color = yColor opts, ln_opacity = or_default (edgeOpacity opts) (Num 1),
                ln_size = or_default (lineSize opts) (Num 1),
                ln_type = lines, ln_id = ''x-'' @ name \<rparr>,
        Lines \<lparr> ln_x0 = [vec_x p0], ln_y0 = [vec_y p0], ln_x1 = [vec_x vz], ln_y1 = [vec_y vz],
                ln_color = zColor opts, ln_opacity = or_default (edgeOpacity opts) (Num 1),
                ln_size = or_default (lineSize opts) (Num 1),
                ln_type = lines, ln_id = ''x-'' @ name \<rparr>,
        Points \<lparr> pt_x = [vec_x p0], pt_y = [vec_y p0],
                 pt_color = intersectionPointColor opts, pt_opacity = Num 1,
                 pt_size = or_default (intersectionPointSize opts) (Num 3),
                 pt_type = points, pt_id = ''point-'' @ name \<rparr>]"
    by (simp add: drawAxes_def drawAxis_def Let_def)
qed (simp_all add: or_default_def)

theorem drawAxes_four_primitives_witness:
  "drawAxes (vec 0 0) (vec 1 0) (vec 0 1) (vec 0 (1 / 2)) ''t'' sample_axes =
     [Lines \<lparr> ln_x0 = [Num 0], ln_y0 = [Num 0], ln_x1 = [Num 1], ln_y1 = [Num 0],
              ln_color = ''red'', ln_opacity = Num (1 / 2), ln_size = Num 2,
              ln_type = lines, ln_id = ''x-t'' \<rparr>,
      Lines \<lparr> ln_x0 = [Num 0], ln_y0 = [Num 0], ln_x1 = [Num 0], ln_y1 = [Num 1],
              ln_color = ''green'', ln_opacity = Num (1 / 2), ln_size = Num 2,
              ln_type = lines, ln_id = ''x-t'' \<rparr>,
      Lines \<lparr> ln_x0 = [Num 0], ln_y0 = [Num 0], ln_x1 = [Num 0], ln_y1 = [Num (1 / 2)],
              ln_color = ''blue'', ln_opacity = Num (1 / 2), ln_size = Num 2,
              ln_type = lines, ln_id = ''x-t'' \<rparr>,
      Points \<lparr> pt_x = [Num 0], pt_y = [Num 0], pt_color = ''white'', pt_opacity = Num 1,
               pt_size = Num 3, pt_type = points, pt_id = ''point-t'' \<rparr>]"
  using drawAxes_four_primitives
    [of "vec 0 0" "vec 1 0" "vec 0 1" "vec 0 (1 / 2)" "''t''" sample_axes]
  by (auto simp: vec_def sample_axes_def)

section \<open>The cross-section lines\<close>

text \<open>
  Claim C5. Whatever the options, the cross-section-lines renderer returns exactly one
  line bundle of exactly 8 segments: cross-point 0 to 3, 1 to 2, 1 to 4 and 3 to 5, then
  vertex 6 to 4, 4 to 5, 5 to 7 and 7 to 6, with colour \<open>#079992\<close>, opacity 0.5, size 1
  and tag \<open>cross-section-lines\<close>. The snapshot holds the 6 cross-section points and
  the 8 vertex points that the renderer reads.
\<close>

theorem drawCrossSectionLines_eight_segments:
  assumes p: "p = crossPoints2d (cube this)" and t: "t = vertexPoints2d (cube this)"
    and cross: "6 \<le> length p" and vertices: "8 \<le> length t"
  shows "drawCrossSectionLines this =
     Inr [\<lparr> ln_x0 = map vec_x [p ! 0, p ! 1, p ! 1, p ! 3, t ! 6, t ! 4, t ! 5, t ! 7],
             ln_y0 = map vec_y [p ! 0, p ! 1, p ! 1, p ! 3, t ! 6, t ! 4, t ! 5, t ! 7],
             ln_x1 = map vec_x [p ! 3, p ! 2, p ! 4, p ! 5, t ! 4, t ! 5, t ! 7, t ! 6],
             ln_y1 = map vec_y [p ! 3, p ! 2, p ! 4, p ! 5, t ! 4, t ! 5, t ! 7, t ! 6],
             ln_color = ''#079992'',
             ln_opacity = Num (1 / 2),
             ln_size = Num 1,
             ln_type = lines,
             ln_id = ''cross-section-lines'' \<rparr>]"
proof -
  from cross have "p \<noteq> []" and "Suc 0 < length p"
    by auto
  with cross vertices show ?thesis
    unfolding p t
    by (simp add: drawCrossSectionLines_def Let_def get_x_in_range get_y_in_range)
qed

theorem drawCrossSectionLines_eight_segments_witness:
  "6 \<le> length (crossPoints2d sample_cube) \<and> 8 \<le> length (vertexPoints2d sample_cube) \<and>
   drawCrossSectionLines \<lparr> cube = sample_cube, sceneOptions = no_options \<rparr> =
     Inr [\<lparr> ln_x0 = [Num 3, Num 1, Num 1, Num 3, Num 1, Num 1, Num 5, Num 5],
             ln_y0 = [Num 5, Num 3, Num 3, Num 1, Num 1, Num 5, Num 5, Num 1],
             ln_x1 = [Num 3, Num 5, Num 0, Num 2, Num 1, Num 5, Num 5, Num 1],
             ln_y1 = [Num 1, Num 3, Num 2, Num 0, Num 5, Num 5, Num 1, Num 1],
             ln_color = ''#079992'',
             ln_opacity = Num (1 / 2),
             ln_size = Num 1,
             ln_type = lines,
             ln_id = ''cross-section-lines'' \<rparr>]"
  using drawCrossSectionLines_eight_segments
    [of "crossPoints2d sample_cube" "\<lparr> cube = sample_cube, sceneOptions = no_options \<rparr>"
        "vertexPoints2d sample_cube"]
  by (simp add: sample_cube_def vec_def)

section \<open>The box outline\<close>

lemma drawBox_forEach_length:
  "drawBox_forEach p color opacity faces index data = Inr out \<Longrightarrow>
   length out = length data + length faces"
proof (induction faces arbitrary: index data)
  case Nil
  then show ?case by simp
next
  case (Cons face faces)
  then show ?case
    by (auto simp: andThen_def split: list.splits sum.splits)
qed

text \<open>
  Claim C4, as amended. When \<open>sceneEdges\<close> is absent, \<open>drawBox\<close> returns the empty
  sequence. When it is present with colour \<open>c\<close> and opacity \<open>o\<close>, \<open>drawBox\<close> returns exactly
  6 polygons, one per face of the table and in its order: polygon \<open>i\<close> takes its x and y
  sequences from the 4 vertex points that face \<open>i\<close> indexes, in winding order, and has
  border colour \<open>c\<close>, border size 1, fill opacity 0 and tag \<open>plane-<i>\<close>, for \<open>i\<close> from 0
  to 5. Its border opacity is \<open>o\<close> when \<open>o\<close> is a number other than 0 and \<open>NaN\<close>, and 1 when
  \<open>o\<close> is omitted, 0 or \<open>NaN\<close>. The snapshot holds the 8 vertex points.
\<close>

theorem drawBox_six_faces:
  assumes p: "p = vertexPoints2d (cube this)"
  shows "(sceneEdges (sceneOptions this) = None \<longrightarrow> drawBox this = Inr []) \<and>
    (\<forall>edges. sceneEdges (sceneOptions this) = Some edges \<and> 8 \<le> length p \<longrightarrow>
       (\<exists>borderOpacity.
          drawBox this =
            Inr (map (\<lambda>i.
                   \<lparr> pg_x = map (\<lambda>j. vec_x (p ! j)) (POINT_FACE_SET ! i),
                     pg_y = map (\<lambda>j. vec_y (p ! j)) (POINT_FACE_SET ! i),
                     pg_borderColor = se_color edges,
                     pg_borderOpacity = borderOpacity,
                     pg_borderSize = Num 1,
                     pg_fillColor = se_color edges,
                     pg_fillOpacity = Num 0,
                     pg_type = polygon,
                     pg_id = [''plane-0'', ''plane-1'', ''plane-2'',
                              ''plane-3'', ''plane-4'', ''plane-5''] ! i \<rparr>)
                 [0, 1, 2, 3, 4, 5]) \<and>
          (se_opacity edges = None \<longrightarrow> borderOpacity = Num 1) \<and>
          (\<forall>n. se_opacity edges = Some n \<and> truthy n \<longrightarrow> borderOpacity = n) \<and>
          (\<forall>n. se_opacity edges = Some n \<and> \<not> truthy n \<longrightarrow> borderOpacity = Num 1)))"
proof (intro conjI allI impI)
  assume "sceneEdges (sceneOptions this) = None"
  then show "drawBox this = Inr []"
    by (simp add: drawBox_def)
next
  fix edges
  assume a: "sceneEdges (sceneOptions this) = Some edges \<and> 8 \<le> length p"
  then have "p \<noteq> []" and "Suc 0 < length p"
    by auto
  with a have "drawBox this =
            Inr (map (\<lambda>i.
                   \<lparr> pg_x = map (\<lambda>j. vec_x (p ! j)) (POINT_FACE_SET ! i),
                     pg_y = map (\<lambda>j. vec_y (p ! j)) (POINT_FACE_SET ! i),
                     pg_borderColor = se_color edges,
                     pg_borderOpacity = or_default (se_opacity edges) (Num 1),
                     pg_borderSize = Num 1,
                     pg_fillColor = se_color edges,
                     pg_fillOpacity = Num 0,
                     pg_type = polygon,
                     pg_id = [''plane-0'', ''plane-1'', ''plane-2'',
                              ''plane-3'', ''plane-4'', ''plane-5''] ! i \<rparr>)
                 [0, 1, 2, 3, 4, 5])"
    unfolding p
    by (simp add: drawBox_def POINT_FACE_SET_def get_x_in_range get_y_in_range
        string_of_index_digit)
  then show "\<exists>borderOpacity.
          drawBox this =
            Inr (map (\<lambda>i.
                   \<lparr> pg_x = map (\<lambda>j. vec_x (p ! j)) (POINT_FACE_SET ! i),
                     pg_y = map (\<lambda>j. vec_y (p ! j)) (POINT_FACE_SET ! i),
                     pg_borderColor = se_color edges,
                     pg_borderOpacity = borderOpacity,
                     pg_borderSize = Num 1,
                     pg_fillColor = se_color edges,
                     pg_fillOpacity = Num 0,
                     pg_type = polygon,
                     pg_id = [''plane-0'', ''plane-1'', ''plane-2'',
                              ''plane-3'', ''plane-4'', ''plane-5''] ! i \<rparr>)
                 [0, 1, 2, 3, 4, 5]) \<and>
          (se_opacity edges = None \<longrightarrow> borderOpacity = Num 1) \<and>
          (\<forall>n. se_opacity edges = Some n \<and> truthy n \<longrightarrow> borderOpacity = n) \<and>
          (\<forall>n. se_opacity edges = Some n \<and> \<not> truthy n \<longrightarrow> borderOpacity = Num 1)"
    by (intro exI [of _ "or_default (se_opacity edges) (Num 1)"]) (simp add: or_default_def)
qed

theorem drawBox_six_faces_witness:
  "drawBox \<lparr> cube = sample_cube, sceneOptions = no_options \<rparr> = Inr [] \<and>
   8 \<le> length (vertexPoints2d sample_cube) \<and>
   drawBox \<lparr> cube = sample_cube, sceneOptions = all_options \<rparr> =
     Inr (map (\<lambda>(name, xs, ys).
            \<lparr> pg_x = map Num xs, pg_y = map Num ys,
              pg_borderColor = ''#fff'', pg_borderOpacity = Num (8 / 10), pg_borderSize = Num 1,
              pg_fillColor = ''#fff'', pg_fillOpacity = Num 0,
              pg_type = polygon, pg_id = name \<rparr>)
          [(''plane-0'', [0, 4, 4, 0], [4, 4, 0, 0]),
           (''plane-1'', [4, 5, 5, 4], [4, 5, 1, 0]),
           (''plane-2'', [5, 1, 1, 5], [5, 5, 1, 1]),
           (''plane-3'', [1, 0, 0, 1], [5, 4, 0, 1]),
           (''plane-4'', [1, 5, 4, 0], [5, 5, 4, 4]),
           (''plane-5'', [0, 4, 5, 1], [0, 0, 1, 1])])"
  using drawBox_six_faces
    [of "vertexPoints2d sample_cube" "\<lparr> cube = sample_cube, sceneOptions = no_options \<rparr>"]
    drawBox_six_faces
    [of "vertexPoints2d sample_cube" "\<lparr> cube = sample_cube, sceneOptions = all_options \<rparr>"]
  by (auto simp: sample_cube_def vec_def no_options_def all_options_def sample_edges_def
      POINT_FACE_SET_def)

text \<open>
  With the border opacity 0 the claim as first stated asks for polygons of border
  opacity 0; \<open>opacity || 1\<close> gives them border opacity 1.
\<close>

theorem drawBox_opacity_zero_counterexample:
  "sceneEdges (no_options\<lparr>sceneEdges := Some zero_edges\<rparr>) = Some zero_edges \<and>
   se_opacity zero_edges = Some (Num 0) \<and>
   map_sum id (map pg_borderOpacity)
     (drawBox \<lparr> cube = sample_cube,
               sceneOptions = no_options\<lparr>sceneEdges := Some zero_edges\<rparr> \<rparr>) =
     Inr [Num 1, Num 1, Num 1, Num 1, Num 1, Num 1] \<and>
   Num 1 \<noteq> Num 0"
  by (simp add: no_options_def zero_edges_def sample_cube_def vec_def drawBox_def
      POINT_FACE_SET_def get_x_def get_y_def point_at_def or_default_def)

section \<open>Rendering with every optional feature absent\<close>

lemma drawXYplane_returns:
  assumes "8 \<le> length (vertexPoints2d (cube this))"
  shows "drawXYplane this =
     Inr [\<lparr> pg_x = map vec_x (map ((!) (vertexPoints2d (cube this))) [4, 5, 7, 6]),
             pg_y = map vec_y (map ((!) (vertexPoints2d (cube this))) [4, 5, 7, 6]),
             pg_borderColor = ''#0e2845'',
             pg_borderOpacity = Num 1,
             pg_borderSize = Num 1,
             pg_fillColor = ''#0e2845'',
             pg_fillOpacity = Num (1 / 2),
             pg_type = polygon,
             pg_id = ''xy-plane'' \<rparr>]"
  using assms by (simp add: drawXYplane_def Let_def get_x_in_range get_y_in_range)

lemma drawCrossSectionLines_returns:
  assumes "6 \<le> length (crossPoints2d (cube this))"
    and "8 \<le> length (vertexPoints2d (cube this))"
  shows "\<exists>bundle. drawCrossSectionLines this = Inr [bundle]"
proof -
  from assms have "crossPoints2d (cube this) \<noteq> []"
    and "Suc 0 < length (crossPoints2d (cube this))"
    by auto
  with assms show ?thesis
    by (simp add: drawCrossSectionLines_def Let_def get_x_in_range get_y_in_range)
qed

text \<open>
  Claim C2. When the \<open>sceneEdges\<close>, \<open>edgeAxes\<close>, \<open>worldAxes\<close> and \<open>cubeAxes\<close> configs are
  all absent, \<open>render\<close> returns exactly 3 primitives, in this order: the XY-plane polygon,
  the same XY-plane polygon again (the two are equal values) and the cross-section line
  bundle. The snapshot holds the 8 vertex points and the 6 cross-section points.
\<close>

theorem render_without_options:
  assumes "sceneEdges (sceneOptions this) = None"
    and "edgeAxes (sceneOptions this) = None"
    and "worldAxes (sceneOptions this) = None"
    and "cubeAxes (sceneOptions this) = None"
    and "8 \<le> length (vertexPoints2d (cube this))"
    and "6 \<le> length (crossPoints2d (cube this))"
  shows "\<exists>xyPlane crossSection.
     drawXYplane this = Inr [xyPlane] \<and>
     pg_id xyPlane = ''xy-plane'' \<and>
     drawCrossSectionLines this = Inr [crossSection] \<and>
     ln_id crossSection = ''cross-section-lines'' \<and>
     render this = Inr [Polygon xyPlane, Polygon xyPlane, Lines crossSection]"
proof -
  from assms obtain crossSection
    where cs: "drawCrossSectionLines this = Inr [crossSection]"
    using drawCrossSectionLines_returns by blast
  then have cs_id: "ln_id crossSection = ''cross-section-lines''"
    by (auto simp: drawCrossSectionLines_def Let_def andThen_def split: sum.splits)
  from assms obtain xyPlane
    where xy: "drawXYplane this = Inr [xyPlane]" and xy_id: "pg_id xyPlane = ''xy-plane''"
    using drawXYplane_returns [of this] by simp
  from assms have "render this = Inr [Polygon xyPlane, Polygon xyPlane, Lines crossSection]"
    by (simp add: render_def drawBox_def drawEdges_def drawWorldAxes_def drawCubeAxes_def xy cs)
  with xy xy_id cs cs_id show ?thesis
    by blast
qed

theorem render_without_options_witness:
  "sceneEdges no_options = None \<and> edgeAxes no_options = None \<and>
   worldAxes no_options = None \<and> cubeAxes no_options = None \<and>
   8 \<le> length (vertexPoints2d sample_cube) \<and> 6 \<le> length (crossPoints2d sample_cube) \<and>
   render \<lparr> cube = sample_cube, sceneOptions = no_options \<rparr> =
     Inr [Polygon \<lparr> pg_x = [Num 1, Num 5, Num 5, Num 1], pg_y = [Num 5, Num 5, Num 1, Num 1],
                    pg_borderColor = ''#0e2845'', pg_borderOpacity = Num 1,
                    pg_borderSize = Num 1, pg_fillColor = ''#0e2845'',
                    pg_fillOpacity = Num (1 / 2), pg_type = polygon, pg_id = ''xy-plane'' \<rparr>,
          Polygon \<lparr> pg_x = [Num 1, Num 5, Num 5, Num 1], pg_y = [Num 5, Num 5, Num 1, Num 1],
                    pg_borderColor = ''#0e2845'', pg_borderOpacity = Num 1,
                    pg_borderSize = Num 1, pg_fillColor = ''#0e2845'',
                    pg_fillOpacity = Num (1 / 2), pg_type = polygon, pg_id = ''xy-plane'' \<rparr>,
          Lines \<lparr> ln_x0 = [Num 3, Num 1, Num 1, Num 3, Num 1, Num 1, Num 5, Num 5],
                  ln_y0 = [Num 5, Num 3, Num 3, Num 1, Num 1, Num 5, Num 5, Num 1],
                  ln_x1 = [Num 3, Num 5, Num 0, Num 2, Num 1, Num 5, Num 5, Num 1],
                  ln_y1 = [Num 1, Num 3, Num 2, Num 0, Num 5, Num 5, Num 1, Num 1],
                  ln_color = ''#079992'', ln_opacity = Num (1 / 2), ln_size = Num 1,
                  ln_type = lines, ln_id = ''cross-section-lines'' \<rparr>]"
proof -
  let ?r = "\<lparr> cube = sample_cube, sceneOptions = no_options \<rparr>"
  have options: "sceneEdges (sceneOptions ?r) = None" "edgeAxes (sceneOptions ?r) = None"
    "worldAxes (sceneOptions ?r) = None" "cubeAxes (sceneOptions ?r) = None"
    by (simp_all add: no_options_def)
  have points: "8 \<le> length (vertexPoints2d (cube ?r))"
    "6 \<le> length (crossPoints2d (cube ?r))"
    by (simp_all add: sample_cube_def)
  from render_without_options [OF options points] obtain xyPlane crossSection
    where "drawXYplane ?r = Inr [xyPlane]"
      and "drawCrossSectionLines ?r = Inr [crossSection]"
      and "render ?r = Inr [Polygon xyPlane, Polygon xyPlane, Lines crossSection]"
    by blast
  then show ?thesis
    by (simp add: no_options_def sample_cube_def vec_def drawXYplane_def
        drawCrossSectionLines_def get_x_def get_y_def point_at_def)
qed

section \<open>The top-level composition\<close>

lemma drawBox_returns:
  assumes "8 \<le> length (vertexPoints2d (cube this))"
  shows "\<exists>box. drawBox this = Inr box"
proof (cases "sceneEdges (sceneOptions this)")
  case None
  then show ?thesis
    by (simp add: drawBox_def)
next
  case (Some edges)
  from assms have "vertexPoints2d (cube this) \<noteq> []"
    and "Suc 0 < length (vertexPoints2d (cube this))"
    by auto
  with assms Some show ?thesis
    by (simp add: drawBox_def POINT_FACE_SET_def get_x_in_range get_y_in_range)
qed

lemma drawEdges_returns:
  assumes "8 \<le> length (vertexPoints2d (cube this))"
  shows "\<exists>edges. drawEdges this = Inr edges"
  using assms
  by (cases "edgeAxes (sceneOptions this)") (simp_all add: drawEdges_def Let_def point_at_in_range)

lemma drawWorldAxes_returns:
  assumes "3 \<le> length (worldAxes2d (cube this))"
  shows "\<exists>world. drawWorldAxes this = Inr world"
proof -
  from assms have "worldAxes2d (cube this) \<noteq> []"
    and "Suc 0 < length (worldAxes2d (cube this))"
    by auto
  with assms show ?thesis
    by (cases "worldAxes (sceneOptions this)")
      (simp_all add: drawWorldAxes_def Let_def point_at_in_range)
qed

lemma drawCubeAxes_returns:
  assumes "3 \<le> length (axes2d (cube this))"
  shows "\<exists>axes. drawCubeAxes this = Inr axes"
proof -
  from assms have "axes2d (cube this) \<noteq> []"
    and "Suc 0 < length (axes2d (cube this))"
    by auto
  with assms show ?thesis
    by (cases "cubeAxes (sceneOptions this)")
      (simp_all add: drawCubeAxes_def Let_def point_at_in_range)
qed

lemma render_returns:
  assumes "well_formed (cube this)"
  shows "\<exists>result. render this = Inr result"
proof -
  from assms have vertices: "8 \<le> length (vertexPoints2d (cube this))"
    and cross: "6 \<le> length (crossPoints2d (cube this))"
    and cube_axes: "3 \<le> length (axes2d (cube this))"
    and world_axes: "3 \<le> length (worldAxes2d (cube this))"
    by (simp_all add: well_formed_def)
  obtain box where box: "drawBox this = Inr box"
    using drawBox_returns [OF vertices] by blast
  obtain xyPlane where xy: "drawXYplane this = Inr xyPlane"
    using drawXYplane_returns [OF vertices] by blast
  obtain edges where edges: "drawEdges this = Inr edges"
    using drawEdges_returns [OF vertices] by blast
  obtain crossSection where cs: "drawCrossSectionLines this = Inr crossSection"
    using drawCrossSectionLines_returns [OF cross vertices] by blast
  obtain world where world: "drawWorldAxes this = Inr world"
    using drawWorldAxes_returns [OF world_axes] by blast
  obtain axes where axes: "drawCubeAxes this = Inr axes"
    using drawCubeAxes_returns [OF cube_axes] by blast
  show ?thesis
    by (simp add: render_def box xy edges cs world axes)
qed

text \<open>
  Claim C1. For every cube snapshot and options, \<open>render\<close> returns exactly the
  concatenation, in this order, of the outputs of the box renderer, the XY-plane
  renderer, the edge-axes renderer, the XY-plane renderer a second time, the
  cross-section-lines renderer, the world-axes renderer and the cube-axes renderer,
  nothing removed and nothing reordered: \<open>render\<close> returns a list exactly when the six
  renderers return, and the list is that concatenation. On a well-formed snapshot it
  does return.
\<close>

theorem render_concatenation:
  "(render this = Inr out \<longleftrightarrow>
      (\<exists>box xyPlane edges crossSection world axes.
         drawBox this = Inr box \<and>
         drawXYplane this = Inr xyPlane \<and>
         drawEdges this = Inr edges \<and>
         drawCrossSectionLines this = Inr crossSection \<and>
         drawWorldAxes this = Inr world \<and>
         drawCubeAxes this = Inr axes \<and>
         out = map Polygon box @ map Polygon xyPlane @ edges @ map Polygon xyPlane @
               map Lines crossSection @ world @ axes)) \<and>
   (well_formed (cube this) \<longrightarrow> (\<exists>result. render this = Inr result))"
proof (intro conjI impI)
  show "render this = Inr out \<longleftrightarrow>
      (\<exists>box xyPlane edges crossSection world axes.
         drawBox this = Inr box \<and>
         drawXYplane this = Inr xyPlane \<and>
         drawEdges this = Inr edges \<and>
         drawCrossSectionLines this = Inr crossSection \<and>
         drawWorldAxes this = Inr world \<and>
         drawCubeAxes this = Inr axes \<and>
         out = map Polygon box @ map Polygon xyPlane @ edges @ map Polygon xyPlane @
               map Lines crossSection @ world @ axes)"
    by (auto simp: render_def andThen_def split: sum.splits)
next
  assume "well_formed (cube this)"
  then show "\<exists>result. render this = Inr result"
    by (rule render_returns)
qed

theorem render_concatenation_witness:
  "well_formed sample_cube \<and>
   map_sum id (map tag) (render \<lparr> cube = sample_cube, sceneOptions = all_options \<rparr>) =
     Inr [''plane-0'', ''plane-1'', ''plane-2'', ''plane-3'', ''plane-4'', ''plane-5'',
          ''xy-plane'',
          ''x-edge'', ''x-edge'', ''x-edge'', ''point-edge'',
          ''xy-plane'',
          ''cross-section-lines'',
          ''x-worldAxes'', ''x-worldAxes'', ''x-worldAxes'', ''point-worldAxes'',
          ''x-axes'', ''x-axes'', ''x-axes'', ''point-axes'']"
proof -
  let ?r = "\<lparr> cube = sample_cube, sceneOptions = all_options \<rparr>"
  have wf: "well_formed sample_cube"
    by (simp add: well_formed_def sample_cube_def)
  then obtain out where out: "render ?r = Inr out"
    using render_concatenation [of ?r "[]", THEN conjunct2] by auto
  then obtain box xyPlane edges crossSection world axes
    where "drawBox ?r = Inr box"
      and "drawXYplane ?r = Inr xyPlane"
      and "drawEdges ?r = Inr edges"
      and "drawCrossSectionLines ?r = Inr crossSection"
      and "drawWorldAxes ?r = Inr world"
      and "drawCubeAxes ?r = Inr axes"
      and "out = map Polygon box @ map Polygon xyPlane @ edges @ map Polygon xyPlane @
               map Lines crossSection @ world @ axes"
    using render_concatenation [of ?r out, THEN conjunct1] by blast
  then have "map tag out =
     [''plane-0'', ''plane-1'', ''plane-2'', ''plane-3'', ''plane-4'', ''plane-5'',
          ''xy-plane'',
          ''x-edge'', ''x-edge'', ''x-edge'', ''point-edge'',
          ''xy-plane'',
          ''cross-section-lines'',
          ''x-worldAxes'', ''x-worldAxes'', ''x-worldAxes'', ''point-worldAxes'',
          ''x-axes'', ''x-axes'', ''x-axes'', ''point-axes'']"
    by (auto simp: all_options_def sample_cube_def sample_edges_def sample_axes_def vec_def
        drawBox_def POINT_FACE_SET_def drawXYplane_def drawEdges_def drawCrossSectionLines_def
        drawWorldAxes_def drawCubeAxes_def drawAxes_def drawAxis_def Let_def
        get_x_def get_y_def point_at_def string_of_index_digit)
  with wf out show ?thesis
    by simp
qed

section \<open>Which sub-renderers the options switch off\<close>

lemma drawAxes_not_empty: "drawAxes p0 vx vy vz name opts \<noteq> []"
  by (simp add: drawAxes_def Let_def)

lemma drawBox_gate:
  "drawBox this = Inr [] \<longleftrightarrow> sceneEdges (sceneOptions this) = None"
proof (cases "sceneEdges (sceneOptions this)")
  case None
  then show ?thesis
    by (simp add: drawBox_def)
next
  case (Some edges)
  have "drawBox this \<noteq> Inr []"
  proof
    assume "drawBox this = Inr []"
    with Some have "drawBox_forEach (vertexPoints2d (cube this)) (se_color edges)
        (se_opacity edges) POINT_FACE_SET 0 [] = Inr []"
      by (simp add: drawBox_def)
    from drawBox_forEach_length [OF this] show False
      by (simp add: POINT_FACE_SET_def)
  qed
  with Some show ?thesis
    by simp
qed

lemma drawEdges_gate:
  "drawEdges this = Inr [] \<longleftrightarrow> edgeAxes (sceneOptions this) = None"
  by (cases "edgeAxes (sceneOptions this)")
    (auto simp: drawEdges_def Let_def andThen_def drawAxes_not_empty split: sum.splits)

lemma drawWorldAxes_gate:
  "drawWorldAxes this = Inr [] \<longleftrightarrow> worldAxes (sceneOptions this) = None"
  by (cases "worldAxes (sceneOptions this)")
    (auto simp: drawWorldAxes_def Let_def andThen_def drawAxes_not_empty split: sum.splits)

lemma drawCubeAxes_gate:
  "drawCubeAxes this = Inr [] \<longleftrightarrow> cubeAxes (sceneOptions this) = None"
  by (cases "cubeAxes (sceneOptions this)")
    (auto simp: drawCubeAxes_def Let_def andThen_def drawAxes_not_empty split: sum.splits)

lemma drawXYplane_not_empty: "drawXYplane this \<noteq> Inr []"
  by (auto simp: drawXYplane_def Let_def andThen_def split: sum.splits)

lemma drawCrossSectionLines_not_empty: "drawCrossSectionLines this \<noteq> Inr []"
  by (auto simp: drawCrossSectionLines_def Let_def andThen_def split: sum.splits)

text \<open>
  Claim C7, as amended. The box, edge-axes, world-axes and cube-axes renderers return an
  empty sequence when their own config (\<open>sceneEdges\<close>, \<open>edgeAxes\<close>, \<open>worldAxes\<close>,
  \<open>cubeAxes\<close>) is absent, and that absence is their sole disable switch: with the config
  present they never return an empty sequence. The XY-plane and cross-section-lines
  renderers read no option: their result is the same under any options and is never an
  empty sequence. As stated for all six renderers the claim fails: with \<open>xyPlane\<close> and
  \<open>crossLines\<close> absent, both still return their primitive.
\<close>

theorem gated_sub_renderers:
  "(drawBox this = Inr [] \<longleftrightarrow> sceneEdges (sceneOptions this) = None) \<and>
   (drawEdges this = Inr [] \<longleftrightarrow> edgeAxes (sceneOptions this) = None) \<and>
   (drawWorldAxes this = Inr [] \<longleftrightarrow> worldAxes (sceneOptions this) = None) \<and>
   (drawCubeAxes this = Inr [] \<longleftrightarrow> cubeAxes (sceneOptions this) = None) \<and>
   drawXYplane (this\<lparr>sceneOptions := options\<rparr>) = drawXYplane this \<and>
   drawXYplane this \<noteq> Inr [] \<and>
   drawCrossSectionLines (this\<lparr>sceneOptions := options\<rparr>) = drawCrossSectionLines this \<and>
   drawCrossSectionLines this \<noteq> Inr []"
  by (simp add: drawBox_gate drawEdges_gate drawWorldAxes_gate drawCubeAxes_gate
      drawXYplane_not_empty drawCrossSectionLines_not_empty)
    (simp add: drawXYplane_def drawCrossSectionLines_def)

theorem gated_sub_renderers_witness:
  "drawBox \<lparr> cube = sample_cube, sceneOptions = no_options \<rparr> = Inr [] \<and>
   drawEdges \<lparr> cube = sample_cube, sceneOptions = no_options \<rparr> = Inr [] \<and>
   drawWorldAxes \<lparr> cube = sample_cube, sceneOptions = no_options \<rparr> = Inr [] \<and>
   drawCubeAxes \<lparr> cube = sample_cube, sceneOptions = no_options \<rparr> = Inr [] \<and>
   drawBox \<lparr> cube = sample_cube, sceneOptions = all_options \<rparr> \<noteq> Inr [] \<and>
   drawEdges \<lparr> cube = sample_cube, sceneOptions = all_options \<rparr> \<noteq> Inr [] \<and>
   drawWorldAxes \<lparr> cube = sample_cube, sceneOptions = all_options \<rparr> \<noteq> Inr [] \<and>
   drawCubeAxes \<lparr> cube = sample_cube, sceneOptions = all_options \<rparr> \<noteq> Inr []"
  using gated_sub_renderers [of "\<lparr> cube = sample_cube, sceneOptions = no_options \<rparr>" no_options]
    gated_sub_renderers [of "\<lparr> cube = sample_cube, sceneOptions = all_options \<rparr>" all_options]
  by (simp add: no_options_def all_options_def)

text \<open>
  With every config absent, \<open>xyPlane\<close> and \<open>crossLines\<close> among them, the XY-plane renderer
  still returns its polygon and the cross-section-lines renderer its bundle.
\<close>

theorem ungated_sub_renderers_counterexample:
  "xyPlane no_options = None \<and> crossLines no_options = None \<and>
   drawXYplane \<lparr> cube = sample_cube, sceneOptions = no_options \<rparr> =
     Inr [\<lparr> pg_x = [Num 1, Num 5, Num 5, Num 1], pg_y = [Num 5, Num 5, Num 1, Num 1],
             pg_borderColor = ''#0e2845'', pg_borderOpacity = Num 1,
             pg_borderSize = Num 1, pg_fillColor = ''#0e2845'',
             pg_fillOpacity = Num (1 / 2), pg_type = polygon, pg_id = ''xy-plane'' \<rparr>] \<and>
   drawXYplane \<lparr> cube = sample_cube, sceneOptions = no_options \<rparr> \<noteq> Inr [] \<and>
   drawCrossSectionLines \<lparr> cube = sample_cube, sceneOptions = no_options \<rparr> \<noteq> Inr []"
  by (simp add: no_options_def sample_cube_def vec_def drawXYplane_def
      drawCrossSectionLines_def get_x_def get_y_def point_at_def)

section \<open>Repeated calls\<close>

text \<open>
  What a call does to the store. The loop of \<open>drawBox\<close> writes to the array \<open>data\<close> only
  and leaves in it what the loop of the value model returns; \<open>drawBox\<close> and \<open>render\<close>
  return what the value model returns for the instance, leave the instance as it was,
  and leave a store with more arrays than before.
\<close>

lemma push_at:
  "data < length (arrays s) \<Longrightarrow> arrays (push data v s) ! data = arrays s ! data @ [v]"
  by (simp add: push_def)

lemma push_frame:
  "renderer (push data v s) = renderer s" "length (arrays (push data v s)) = length (arrays s)"
  by (simp_all add: push_def)

lemma drawBox_forEach_st_frame:
  "renderer (snd (drawBox_forEach_st p color opacity data faces index s)) = renderer s \<and>
   length (arrays (snd (drawBox_forEach_st p color opacity data faces index s))) =
     length (arrays s)"
proof (induction faces arbitrary: index s)
  case Nil
  show ?case by simp
next
  case (Cons face faces)
  show ?case
    by (simp add: Cons.IH push_frame split: list.splits sum.splits)
qed

lemma drawBox_forEach_st_result:
  assumes "data < length (arrays s)"
  shows "fst (drawBox_forEach_st p color opacity data faces index s) =
      map_sum id (\<lambda>_. ()) (drawBox_forEach p color opacity faces index (arrays s ! data)) \<and>
    (\<forall>out. drawBox_forEach p color opacity faces index (arrays s ! data) = Inr out \<longrightarrow>
       arrays (snd (drawBox_forEach_st p color opacity data faces index s)) ! data = out)"
  using assms
proof (induction faces arbitrary: index s)
  case Nil
  show ?case by simp
next
  case (Cons face faces)
  show ?case
  proof (cases "\<exists>a b c d rest. face = a # b # c # d # rest")
    case False
    then have "drawBox_forEach p color opacity (face # faces) index (arrays s ! data) =
        Inl TypeError"
      and "drawBox_forEach_st p color opacity data (face # faces) index s = (Inl TypeError, s)"
      by (auto split: list.splits)
    then show ?thesis
      by simp
  next
    case True
    then obtain a b c d rest where face: "face = a # b # c # d # rest"
      by blast
    show ?thesis
    proof (cases "array_of [get_x p a, get_x p b, get_x p c, get_x p d]")
      case (Inl e)
      with face show ?thesis
        by (simp del: array_of.simps)
    next
      case xs: (Inr xs)
      show ?thesis
      proof (cases "array_of [get_y p a, get_y p b, get_y p c, get_y p d]")
        case (Inl e)
        with face xs show ?thesis
          by (simp del: array_of.simps)
      next
        case ys: (Inr ys)
        let ?plane = "\<lparr> pg_x = xs,
                        pg_y = ys,
                        pg_borderColor = color,
                        pg_borderOpacity = or_default opacity (Num 1),
                        pg_borderSize = Num 1,
                        pg_fillColor = color,
                        pg_fillOpacity = Num 0,
                        pg_type = polygon,
                        pg_id = ''plane-'' @ string_of_index index \<rparr>"
        from Cons.prems have "data < length (arrays (push data ?plane s))"
          by (simp add: push_frame)
        from Cons.IH [OF this, of "Suc index"] Cons.prems face xs ys show ?thesis
          by (simp add: push_at del: array_of.simps)
      qed
    qed
  qed
qed

lemma drawBox_st_result: "fst (drawBox_st s) = drawBox (renderer s)"
proof (cases "sceneEdges (sceneOptions (renderer s))")
  case None
  then show ?thesis
    by (simp add: drawBox_st_def drawBox_def)
next
  case (Some edges)
  let ?data = "length (arrays s)"
  let ?s1 = "s\<lparr>arrays := arrays s @ [[]]\<rparr>"
  let ?loop = "drawBox_forEach_st (vertexPoints2d (cube (renderer s))) (se_color edges)
      (se_opacity edges) ?data POINT_FACE_SET 0 ?s1"
  let ?pure = "drawBox_forEach (vertexPoints2d (cube (renderer s))) (se_color edges)
      (se_opacity edges) POINT_FACE_SET 0 []"
  have "?data < length (arrays ?s1)"
    by simp
  from drawBox_forEach_st_result [OF this, of "vertexPoints2d (cube (renderer s))"
      "se_color edges" "se_opacity edges" POINT_FACE_SET 0]
  have result: "fst ?loop = map_sum id (\<lambda>_. ()) ?pure"
    and data: "\<And>out. ?pure = Inr out \<Longrightarrow> arrays (snd ?loop) ! ?data = out"
    by simp_all
  have pure: "drawBox (renderer s) = ?pure"
    using Some by (simp add: drawBox_def)
  have st: "drawBox_st s =
      (case ?loop of (Inl e, s2) \<Rightarrow> (Inl e, s2) | (Inr u, s2) \<Rightarrow> (Inr (arrays s2 ! ?data), s2))"
    using Some by (simp add: drawBox_st_def new_array_def)
  show ?thesis
  proof (cases ?pure)
    case (Inl e)
    with result have "fst ?loop = Inl e"
      by simp
    then show ?thesis
      unfolding pure st Inl by (cases ?loop) simp
  next
    case (Inr out)
    with result data have "fst ?loop = Inr ()" and "arrays (snd ?loop) ! ?data = out"
      by simp_all
    then show ?thesis
      unfolding pure st Inr by (cases ?loop) simp
  qed
qed

lemma drawBox_st_frame:
  "renderer (snd (drawBox_st s)) = renderer s \<and>
   length (arrays s) \<le> length (arrays (snd (drawBox_st s)))"
proof (cases "sceneEdges (sceneOptions (renderer s))")
  case None
  then show ?thesis
    by (simp add: drawBox_st_def)
next
  case (Some edges)
  let ?s1 = "s\<lparr>arrays := arrays s @ [[]]\<rparr>"
  let ?loop = "drawBox_forEach_st (vertexPoints2d (cube (renderer s))) (se_color edges)
      (se_opacity edges) (length (arrays s)) POINT_FACE_SET 0 ?s1"
  have st: "snd (drawBox_st s) = snd ?loop"
    using Some by (simp add: drawBox_st_def new_array_def split: prod.splits sum.splits)
  have "renderer (snd ?loop) = renderer ?s1"
    and "length (arrays (snd ?loop)) = length (arrays ?s1)"
    using drawBox_forEach_st_frame by blast+
  with st show ?thesis
    by simp
qed

lemma seq_reads:
  "seq (reads f) g s = (case f (renderer s) of Inl e \<Rightarrow> (Inl e, s) | Inr v \<Rightarrow> g v s)"
  by (simp add: seq_def reads_def split: sum.splits)

lemma render_st_result_frame:
  "fst (render_st s) = render (renderer s) \<and>
   renderer (snd (render_st s)) = renderer s \<and>
   length (arrays s) < length (arrays (snd (render_st s)))"
proof -
  let ?s1 = "s\<lparr>arrays := arrays s @ [[]]\<rparr>"
  obtain r s2 where box: "drawBox_st ?s1 = (r, s2)"
    by (cases "drawBox_st ?s1")
  with drawBox_st_result [of ?s1] drawBox_st_frame [of ?s1]
  have r: "r = drawBox (renderer s)" and s2: "renderer s2 = renderer s"
    and len: "length (arrays s) < length (arrays s2)"
    by simp_all
  show ?thesis
    using box r [symmetric] s2 len
    by (simp add: render_st_def render_def new_array_def seq_def [of drawBox_st] seq_reads
        andThen_def split: sum.splits)
qed

text \<open>
  Claim C8. Two successive calls of \<open>render\<close> on the same renderer instance, for a fixed
  cube snapshot and options, return structurally equal results; in particular the
  sequence of tag strings is the same in both. The second call runs in the store the
  first one left, which differs from the initial one in its arrays and not in the
  instance. On a well-formed snapshot both calls return the same primitive list.
\<close>

theorem render_twice_equal:
  "fst (render_twice s) = snd (render_twice s) \<and>
   renderer (snd (render_st s)) = renderer s \<and>
   arrays (snd (render_st s)) \<noteq> arrays s \<and>
   map_sum id (map tag) (fst (render_twice s)) = map_sum id (map tag) (snd (render_twice s)) \<and>
   (well_formed (cube (renderer s)) \<longrightarrow> (\<exists>out. render_twice s = (Inr out, Inr out)))"
proof -
  obtain first s1 where call1: "render_st s = (first, s1)"
    by (cases "render_st s")
  obtain second s2 where call2: "render_st s1 = (second, s2)"
    by (cases "render_st s1")
  from call1 render_st_result_frame [of s]
  have first: "first = render (renderer s)" and same: "renderer s1 = renderer s"
    and grown: "length (arrays s) < length (arrays s1)"
    by simp_all
  from call2 render_st_result_frame [of s1] same
  have second: "second = render (renderer s)"
    by simp
  have twice: "render_twice s = (first, second)"
    by (simp add: render_twice_def call1 call2)
  have "\<exists>out. render_twice s = (Inr out, Inr out)" if "well_formed (cube (renderer s))"
    using render_returns [OF that] twice first second by auto
  with twice first second same grown call1 show ?thesis
    by auto
qed

theorem render_twice_equal_witness:
  "well_formed sample_cube \<and>
   map_sum id (map tag)
     (fst (render_twice
       \<lparr> renderer = \<lparr> cube = sample_cube, sceneOptions = all_options \<rparr>, arrays = [] \<rparr>)) =
     Inr [''plane-0'', ''plane-1'', ''plane-2'', ''plane-3'', ''plane-4'', ''plane-5'',
          ''xy-plane'',
          ''x-edge'', ''x-edge'', ''x-edge'', ''point-edge'',
          ''xy-plane'',
          ''cross-section-lines'',
          ''x-worldAxes'', ''x-worldAxes'', ''x-worldAxes'', ''point-worldAxes'',
          ''x-axes'', ''x-axes'', ''x-axes'', ''point-axes''] \<and>
   map_sum id (map tag)
     (snd (render_twice
       \<lparr> renderer = \<lparr> cube = sample_cube, sceneOptions = all_options \<rparr>, arrays = [] \<rparr>)) =
     Inr [''plane-0'', ''plane-1'', ''plane-2'', ''plane-3'', ''plane-4'', ''plane-5'',
          ''xy-plane'',
          ''x-edge'', ''x-edge'', ''x-edge'', ''point-edge'',
          ''xy-plane'',
          ''cross-section-lines'',
          ''x-worldAxes'', ''x-worldAxes'', ''x-worldAxes'', ''point-worldAxes'',
          ''x-axes'', ''x-axes'', ''x-axes'', ''point-axes''] \<and>
   length (arrays (snd (render_st
     \<lparr> renderer = \<lparr> cube = sample_cube, sceneOptions = all_options \<rparr>, arrays = [] \<rparr>))) = 2"
proof -
  let ?s = "\<lparr> renderer = \<lparr> cube = sample_cube, sceneOptions = all_options \<rparr>, arrays = [] \<rparr>"
  have wf: "well_formed sample_cube"
    by (simp add: well_formed_def sample_cube_def)
  with render_twice_equal [of ?s] obtain out
    where twice: "render_twice ?s = (Inr out, Inr out)"
    by auto
  have "fst (render_twice ?s) = fst (render_st ?s)"
    by (simp add: render_twice_def split: prod.splits)
  with twice have "render \<lparr> cube = sample_cube, sceneOptions = all_options \<rparr> = Inr out"
    using render_st_result_frame [of ?s] by simp
  then have tags: "map tag out =
     [''plane-0'', ''plane-1'', ''plane-2'', ''plane-3'', ''plane-4'', ''plane-5'',
          ''xy-plane'',
          ''x-edge'', ''x-edge'', ''x-edge'', ''point-edge'',
          ''xy-plane'',
          ''cross-section-lines'',
          ''x-worldAxes'', ''x-worldAxes'', ''x-worldAxes'', ''point-worldAxes'',
          ''x-axes'', ''x-axes'', ''x-axes'', ''point-axes'']"
    by (auto simp: render_def all_options_def sample_cube_def sample_edges_def sample_axes_def
        vec_def drawBox_def POINT_FACE_SET_def drawXYplane_def drawEdges_def
        drawCrossSectionLines_def drawWorldAxes_def drawCubeAxes_def drawAxes_def drawAxis_def
        Let_def get_x_def get_y_def point_at_def string_of_index_digit)
  have "length (arrays (snd (render_st ?s))) = 2"
    by (simp add: render_st_def new_array_def seq_def reads_def drawBox_st_def push_def
        all_options_def sample_cube_def sample_edges_def sample_axes_def vec_def
        POINT_FACE_SET_def drawXYplane_def drawEdges_def
        drawCrossSectionLines_def drawWorldAxes_def drawCubeAxes_def Let_def
        get_x_def get_y_def point_at_def)
  with wf twice tags show ?thesis
    by simp
qed

section \<open>Options that render never reads\<close>

text \<open>
  Claim C9. The output of \<open>render\<close> does not depend on the \<open>xyPlane\<close> and \<open>crossLines\<close>
  fields of the options: for a fixed cube snapshot, two options objects that agree on
  \<open>sceneEdges\<close>, \<open>edgeAxes\<close>, \<open>worldAxes\<close> and \<open>cubeAxes\<close> give equal results.
\<close>

theorem render_ignores_xyPlane_crossLines:
  assumes "sceneEdges options1 = sceneEdges options2"
    and "edgeAxes options1 = edgeAxes options2"
    and "worldAxes options1 = worldAxes options2"
    and "cubeAxes options1 = cubeAxes options2"
  shows "render \<lparr> cube = c, sceneOptions = options1 \<rparr> =
         render \<lparr> cube = c, sceneOptions = options2 \<rparr>"
proof -
  let ?r1 = "\<lparr> cube = c, sceneOptions = options1 \<rparr>"
  let ?r2 = "\<lparr> cube = c, sceneOptions = options2 \<rparr>"
  from assms have "drawBox ?r1 = drawBox ?r2"
    by (simp add: drawBox_def split: option.splits)
  moreover have "drawXYplane ?r1 = drawXYplane ?r2"
    by (simp add: drawXYplane_def)
  moreover from assms have "drawEdges ?r1 = drawEdges ?r2"
    by (simp add: drawEdges_def split: option.splits)
  moreover have "drawCrossSectionLines ?r1 = drawCrossSectionLines ?r2"
    by (simp add: drawCrossSectionLines_def)
  moreover from assms have "drawWorldAxes ?r1 = drawWorldAxes ?r2"
    by (simp add: drawWorldAxes_def split: option.splits)
  moreover from assms have "drawCubeAxes ?r1 = drawCubeAxes ?r2"
    by (simp add: drawCubeAxes_def split: option.splits)
  ultimately show ?thesis
    by (simp add: render_def)
qed

theorem render_ignores_xyPlane_crossLines_witness:
  "xyPlane (all_options\<lparr>xyPlane := None, crossLines := Some False\<rparr>) \<noteq> xyPlane all_options \<and>
   crossLines (all_options\<lparr>xyPlane := None, crossLines := Some False\<rparr>) \<noteq> crossLines all_options \<and>
   render \<lparr> cube = sample_cube,
            sceneOptions = all_options\<lparr>xyPlane := None, crossLines := Some False\<rparr> \<rparr> =
   render \<lparr> cube = sample_cube, sceneOptions = all_options \<rparr>"
  using render_ignores_xyPlane_crossLines
    [of "all_options\<lparr>xyPlane := None, crossLines := Some False\<rparr>" all_options sample_cube]
  by (simp add: all_options_def)

section \<open>Style values of zero\<close>

lemma or_default_zero: "or_default (Some (Num 0)) d = or_default None d"
  by (simp add: or_default_def)

lemma drawBox_forEach_zero_opacity:
  "drawBox_forEach p color (Some (Num 0)) faces index data =
   drawBox_forEach p color None faces index data"
proof (induction faces arbitrary: index data)
  case Nil
  show ?case by simp
next
  case (Cons face faces)
  then show ?case
    by (simp add: or_default_zero andThen_def split: list.splits sum.splits)
qed

lemma drawBox_forEach_borderOpacity:
  assumes "drawBox_forEach p color opacity faces index data = Inr out"
    and "\<forall>s \<in> set data. pg_borderOpacity s = or_default opacity (Num 1)"
  shows "\<forall>s \<in> set out. pg_borderOpacity s = or_default opacity (Num 1)"
  using assms
proof (induction faces arbitrary: index data)
  case Nil
  then show ?case by simp
next
  case (Cons face faces)
  from Cons.prems(1) obtain a b c d rest xs ys where face: "face = a # b # c # d # rest"
    and step: "drawBox_forEach p color opacity faces (Suc index)
              (data @
                [\<lparr> pg_x = xs,
                   pg_y = ys,
                   pg_borderColor = color,
                   pg_borderOpacity = or_default opacity (Num 1),
                   pg_borderSize = Num 1,
                   pg_fillColor = color,
                   pg_fillOpacity = Num 0,
                   pg_type = polygon,
                   pg_id = ''plane-'' @ string_of_index index \<rparr>]) = Inr out"
    by (auto simp: andThen_def split: list.splits sum.splits)
  from Cons.IH [OF step] Cons.prems(2) show ?case
    by simp
qed

text \<open>
  Claim C10. The styling fallbacks treat the explicit value 0 like an absent value. With
  \<open>edgeOpacity\<close> equal to 0 the axis line bundles have opacity 1, with \<open>lineSize\<close> equal
  to 0 they have size 1, and with \<open>intersectionPointSize\<close> equal to 0 the point marker has
  size 3; in each case the routine returns what it returns when the field is omitted.
  Likewise, with the \<open>sceneEdges\<close> opacity equal to 0 every face polygon that \<open>drawBox\<close>
  returns has border opacity 1, as when the opacity is omitted.
\<close>

theorem zero_style_is_absent:
  "(edgeOpacity opts = Some (Num 0) \<longrightarrow>
      drawAxes p0 vx vy vz name opts = drawAxes p0 vx vy vz name (opts\<lparr>edgeOpacity := None\<rparr>) \<and>
      (\<forall>s. Lines s \<in> set (drawAxes p0 vx vy vz name opts) \<longrightarrow> ln_opacity s = Num 1)) \<and>
   (lineSize opts = Some (Num 0) \<longrightarrow>
      drawAxes p0 vx vy vz name opts = drawAxes p0 vx vy vz name (opts\<lparr>lineSize := None\<rparr>) \<and>
      (\<forall>s. Lines s \<in> set (drawAxes p0 vx vy vz name opts) \<longrightarrow> ln_size s = Num 1)) \<and>
   (intersectionPointSize opts = Some (Num 0) \<longrightarrow>
      drawAxes p0 vx vy vz name opts =
        drawAxes p0 vx vy vz name (opts\<lparr>intersectionPointSize := None\<rparr>) \<and>
      (\<forall>s. Points s \<in> set (drawAxes p0 vx vy vz name opts) \<longrightarrow> pt_size s = Num 3)) \<and>
   (\<forall>edges. sceneEdges (sceneOptions this) = Some edges \<and> se_opacity edges = Some (Num 0) \<longrightarrow>
      drawBox this =
        drawBox (this\<lparr>sceneOptions :=
          (sceneOptions this)\<lparr>sceneEdges := Some (edges\<lparr>se_opacity := None\<rparr>)\<rparr>\<rparr>) \<and>
      (\<forall>out. drawBox this = Inr out \<longrightarrow> (\<forall>s \<in> set out. pg_borderOpacity s = Num 1)))"
proof (intro conjI impI allI)
  assume "edgeOpacity opts = Some (Num 0)"
  then show "drawAxes p0 vx vy vz name opts =
      drawAxes p0 vx vy vz name (opts\<lparr>edgeOpacity := None\<rparr>)"
    and "\<And>s. Lines s \<in> set (drawAxes p0 vx vy vz name opts) \<Longrightarrow> ln_opacity s = Num 1"
    by (auto simp: drawAxes_def drawAxis_def Let_def or_default_def)
next
  assume "lineSize opts = Some (Num 0)"
  then show "drawAxes p0 vx vy vz name opts =
      drawAxes p0 vx vy vz name (opts\<lparr>lineSize := None\<rparr>)"
    and "\<And>s. Lines s \<in> set (drawAxes p0 vx vy vz name opts) \<Longrightarrow> ln_size s = Num 1"
    by (auto simp: drawAxes_def drawAxis_def Let_def or_default_def)
next
  assume "intersectionPointSize opts = Some (Num 0)"
  then show "drawAxes p0 vx vy vz name opts =
      drawAxes p0 vx vy vz name (opts\<lparr>intersectionPointSize := None\<rparr>)"
    and "\<And>s. Points s \<in> set (drawAxes p0 vx vy vz name opts) \<Longrightarrow> pt_size s = Num 3"
    by (auto simp: drawAxes_def drawAxis_def Let_def or_default_def)
next
  fix edges
  assume edges: "sceneEdges (sceneOptions this) = Some edges \<and> se_opacity edges = Some (Num 0)"
  then show "drawBox this =
        drawBox (this\<lparr>sceneOptions :=
          (sceneOptions this)\<lparr>sceneEdges := Some (edges\<lparr>se_opacity := None\<rparr>)\<rparr>\<rparr>)"
    by (simp add: drawBox_def drawBox_forEach_zero_opacity)
next
  fix edges out
  assume edges: "sceneEdges (sceneOptions this) = Some edges \<and> se_opacity edges = Some (Num 0)"
    and "drawBox this = Inr out"
  then have "drawBox_forEach (vertexPoints2d (cube this)) (se_color edges)
      (Some (Num 0)) POINT_FACE_SET 0 [] = Inr out"
    by (simp add: drawBox_def)
  from drawBox_forEach_borderOpacity [OF this]
  show "\<forall>s \<in> set out. pg_borderOpacity s = Num 1"
    by (simp add: or_default_def)
qed

theorem zero_style_is_absent_witness:
  "edgeOpacity zero_axes = Some (Num 0) \<and> lineSize zero_axes = Some (Num 0) \<and>
   intersectionPointSize zero_axes = Some (Num 0) \<and> se_opacity zero_edges = Some (Num 0) \<and>
   drawAxes (vec 0 0) (vec 1 0) (vec 0 1) (vec 0 (1 / 2)) ''t'' zero_axes =
     [Lines \<lparr> ln_x0 = [Num 0], ln_y0 = [Num 0], ln_x1 = [Num 1], ln_y1 = [Num 0],
              ln_color = ''red'', ln_opacity = Num 1, ln_size = Num 1,
              ln_type = lines, ln_id = ''x-t'' \<rparr>,
      Lines \<lparr> ln_x0 = [Num 0], ln_y0 = [Num 0], ln_x1 = [Num 0], ln_y1 = [Num 1],
              ln_color = ''green'', ln_opacity = Num 1, ln_size = Num 1,
              ln_type = lines, ln_id = ''x-t'' \<rparr>,
      Lines \<lparr> ln_x0 = [Num 0], ln_y0 = [Num 0], ln_x1 = [Num 0], ln_y1 = [Num (1 / 2)],
              ln_color = ''blue'', ln_opacity = Num 1, ln_size = Num 1,
              ln_type = lines, ln_id = ''x-t'' \<rparr>,
      Points \<lparr> pt_x = [Num 0], pt_y = [Num 0], pt_color = ''white'', pt_opacity = Num 1,
               pt_size = Num 3, pt_type = points, pt_id = ''point-t'' \<rparr>] \<and>
   map_sum id (map pg_borderOpacity)
     (drawBox \<lparr> cube = sample_cube,
               sceneOptions = no_options\<lparr>sceneEdges := Some zero_edges\<rparr> \<rparr>) =
     Inr [Num 1, Num 1, Num 1, Num 1, Num 1, Num 1]"
proof -
  let ?r = "\<lparr> cube = sample_cube, sceneOptions = no_options\<lparr>sceneEdges := Some zero_edges\<rparr> \<rparr>"
  let ?axes = "drawAxes (vec 0 0) (vec 1 0) (vec 0 1) (vec 0 (1 / 2)) ''t'' zero_axes"
  note zero = zero_style_is_absent
    [of zero_axes "vec 0 0" "vec 1 0" "vec 0 1" "vec 0 (1 / 2)" "''t''" ?r]
  have config: "edgeOpacity zero_axes = Some (Num 0)" "lineSize zero_axes = Some (Num 0)"
    "intersectionPointSize zero_axes = Some (Num 0)" "se_opacity zero_edges = Some (Num 0)"
    by (simp_all add: zero_axes_def zero_edges_def)
  from zero config have "?axes = drawAxes (vec 0 0) (vec 1 0) (vec 0 1) (vec 0 (1 / 2)) ''t''
      (zero_axes\<lparr>edgeOpacity := None\<rparr>)"
    by blast
  then have first: "?axes =
     [Lines \<lparr> ln_x0 = [Num 0], ln_y0 = [Num 0], ln_x1 = [Num 1], ln_y1 = [Num 0],
              ln_color = ''red'', ln_opacity = Num 1, ln_size = Num 1,
              ln_type = lines, ln_id = ''x-t'' \<rparr>,
      Lines \<lparr> ln_x0 = [Num 0], ln_y0 = [Num 0], ln_x1 = [Num 0], ln_y1 = [Num 1],
              ln_color = ''green'', ln_opacity = Num 1, ln_size = Num 1,
              ln_type = lines, ln_id = ''x-t'' \<rparr>,
      Lines \<lparr> ln_x0 = [Num 0], ln_y0 = [Num 0], ln_x1 = [Num 0], ln_y1 = [Num (1 / 2)],
              ln_color = ''blue'', ln_opacity = Num 1, ln_size = Num 1,
              ln_type = lines, ln_id = ''x-t'' \<rparr>,
      Points \<lparr> pt_x = [Num 0], pt_y = [Num 0], pt_color = ''white'', pt_opacity = Num 1,
               pt_size = Num 3, pt_type = points, pt_id = ''point-t'' \<rparr>]"
    by (simp add: drawAxes_def drawAxis_def Let_def zero_axes_def vec_def or_default_def)
  have "8 \<le> length (vertexPoints2d (cube ?r))"
    by (simp add: sample_cube_def)
  then obtain out where out: "drawBox ?r = Inr out"
    using drawBox_returns by blast
  then have "drawBox_forEach (vertexPoints2d sample_cube) (se_color zero_edges)
      (se_opacity zero_edges) POINT_FACE_SET 0 [] = Inr out"
    by (simp add: drawBox_def no_options_def)
  from drawBox_forEach_length [OF this] have six: "length out = 6"
    by (simp add: POINT_FACE_SET_def)
  from zero config out have "\<forall>s \<in> set out. pg_borderOpacity s = Num 1"
    by (simp add: no_options_def)
  then have "map pg_borderOpacity out = replicate (length out) (Num 1)"
    by (simp add: map_replicate_const [symmetric] cong: map_cong)
  with six out have second: "map_sum id (map pg_borderOpacity) (drawBox ?r) =
     Inr [Num 1, Num 1, Num 1, Num 1, Num 1, Num 1]"
    by (simp add: numeral_eq_Suc)
  from config first second show ?thesis
    by simp
qed

section \<open>Snapshots with too few points\<close>

text \<open>
  The renderer validates nothing: a snapshot with fewer than 8 vertex points or fewer than
  6 cross-section points makes the unguarded renderers, and \<open>render\<close> with them, throw.
\<close>

lemma point_at_out_of_range: "length p \<le> i \<Longrightarrow> point_at p i = Inl TypeError"
  by (simp add: point_at_def)

lemma one_error: "(a :: error) = TypeError"
  by (cases a) simp

lemma drawXYplane_throws:
  assumes "length (vertexPoints2d (cube this)) < 8"
  shows "drawXYplane this = Inl TypeError"
proof -
  from assms have "get_x (vertexPoints2d (cube this)) 7 = Inl TypeError"
    by (simp add: get_x_def point_at_out_of_range)
  then show ?thesis
    by (cases "drawXYplane this")
      (auto simp: drawXYplane_def Let_def andThen_def split: sum.splits intro: one_error)
qed

lemma drawCrossSectionLines_throws:
  assumes "length (crossPoints2d (cube this)) < 6 \<or> length (vertexPoints2d (cube this)) < 8"
  shows "drawCrossSectionLines this = Inl TypeError"
proof -
  from assms have "get_x (vertexPoints2d (cube this)) 7 = Inl TypeError \<or>
      get_x (crossPoints2d (cube this)) 5 = Inl TypeError"
    by (auto simp: get_x_def point_at_out_of_range)
  then show ?thesis
    by (cases "drawCrossSectionLines this")
      (auto simp: drawCrossSectionLines_def Let_def andThen_def split: sum.splits intro: one_error)
qed

lemma render_throws:
  assumes "length (vertexPoints2d (cube this)) < 8"
  shows "render this = Inl TypeError"
proof (cases "drawBox this")
  case (Inl e)
  then show ?thesis
    by (cases e) (simp add: render_def)
next
  case (Inr box)
  with drawXYplane_throws [OF assms] show ?thesis
    by (simp add: render_def)
qed

end
